theory Spec2Isabelle
  imports Complex_Main
begin

section \<open>The clearnode RPC transport (\<open>WebSocketManager\<close>)\<close>

text \<open>
  The transport of \<open>websocket-manager.ts\<close> is embedded as a record of the fields of the
  class and one function per method or socket event handler.  JavaScript numbers that the code
  uses as counters and delays are modelled as natural numbers (they are exact on integers below
  \<open>2 ^ 53\<close>, the range the wire format gives to request ids).  What the class does to the
  outside world (frames written to the socket, promises settled, hooks invoked) is appended to
  the \<open>effects\<close> field in the order the code performs it.
\<close>

datatype connection_state = DISCONNECTED | CONNECTING | CONNECTED | RECONNECTING | FAILED

datatype ready_state = WS_CONNECTING | WS_OPEN | WS_CLOSING | WS_CLOSED

record rpc_request =
  req_id :: nat
  req_method :: string
  req_params :: string
  req_timestamp :: nat
  req_sig :: "string list"

datatype payload = AssetsPayload "string list" | OtherPayload string

record rpc_response =
  res_id :: nat
  res_method :: string
  res_data :: payload
  res_error :: "string option option"

datatype failure =
    RequestTimedOut nat nat
  | RpcFailure string
  | WriteFailure

datatype effect =
    Wrote rpc_request
  | Resolved nat rpc_response
  | Rejected nat failure
  | Notification rpc_response
  | HookConnect
  | HookDisconnect
  | HookError
  | HookMessage rpc_response
  | ConnectResolved
  | ConnectRejected
  | SocketClosed nat
  | SocketTerminated

record ws_config =
  cfg_url :: string
  cfg_reconnectAttempts :: "nat option"
  cfg_reconnectDelay :: "nat option"
  cfg_maxReconnectDelay :: "nat option"
  cfg_requestTimeout :: "nat option"

record wsm =
  ws :: "ready_state option"
  url :: string
  connectionState :: connection_state
  reconnectAttempts :: nat
  maxReconnectAttempts :: nat
  reconnectDelay :: nat
  maxReconnectDelay :: nat
  requestTimeout :: nat
  messageQueue :: "rpc_request list"
  responseHandlers :: "nat \<rightharpoonup> nat"
  requestIdCounter :: nat
  assetsCache :: "string list"
  reconnectTimer :: "nat option"
  onConnect :: bool
  onDisconnect :: bool
  onError :: bool
  onMessage :: bool
  requestTimers :: "(nat \<times> nat) list"
  promiseCounter :: nat
  effects :: "effect list"

text \<open>
  \<open>responseHandlers\<close> maps a request id to the promise its handler settles; a promise is
  named by the number of the \<open>send\<close> call that created it (\<open>promiseCounter\<close>).
  \<open>requestTimers\<close> holds the request timeouts that are armed, as pairs of promise and
  request id.  \<open>reconnectTimer\<close> holds the delay of the armed reconnection timer.
\<close>

definition orDefault :: "'a option \<Rightarrow> 'a \<Rightarrow> 'a" where
  "orDefault v d = (case v of None \<Rightarrow> d | Some x \<Rightarrow> x)"

definition constructor :: "ws_config \<Rightarrow> wsm" where
  "constructor config =
     \<lparr> ws = None,
       url = cfg_url config,
       connectionState = DISCONNECTED,
       reconnectAttempts = 0,
       maxReconnectAttempts = orDefault (cfg_reconnectAttempts config) 5,
       reconnectDelay = orDefault (cfg_reconnectDelay config) 1000,
       maxReconnectDelay = orDefault (cfg_maxReconnectDelay config) 30000,
       requestTimeout = orDefault (cfg_requestTimeout config) 30000,
       messageQueue = [],
       responseHandlers = Map.empty,
       requestIdCounter = 1,
       assetsCache = [],
       reconnectTimer = None,
       onConnect = False,
       onDisconnect = False,
       onError = False,
       onMessage = False,
       requestTimers = [],
       promiseCounter = 0,
       effects = [] \<rparr>"

definition emit :: "effect \<Rightarrow> wsm \<Rightarrow> wsm" where
  "emit e s = s\<lparr>effects := effects s @ [e]\<rparr>"

definition isConnected :: "wsm \<Rightarrow> bool" where
  "isConnected s \<longleftrightarrow> connectionState s = CONNECTED \<and> ws s = Some WS_OPEN"

definition getNextRequestId :: "wsm \<Rightarrow> nat \<times> wsm" where
  "getNextRequestId s = (requestIdCounter s, s\<lparr>requestIdCounter := requestIdCounter s + 1\<rparr>)"

definition clearTimeout :: "nat \<Rightarrow> wsm \<Rightarrow> wsm" where
  "clearTimeout p s = s\<lparr>requestTimers := filter (\<lambda>t. fst t \<noteq> p) (requestTimers s)\<rparr>"

text \<open>
  \<open>send\<close>: the handler and the timeout are set up first; the frame is written when the
  socket is open (a write that throws removes the handler, clears the timeout and rejects),
  and the request is pushed on the queue otherwise.  The argument \<open>wr\<close> tells for which
  requests the socket write throws.
\<close>

definition send :: "(rpc_request \<Rightarrow> bool) \<Rightarrow> rpc_request \<Rightarrow> wsm \<Rightarrow> nat \<times> wsm" where
  "send wr request s =
     (let p = promiseCounter s;
          requestId = req_id request;
          s1 = s\<lparr>promiseCounter := p + 1,
                 responseHandlers := (responseHandlers s)(requestId \<mapsto> p),
                 requestTimers := requestTimers s @ [(p, requestId)]\<rparr>
      in if ws s1 = Some WS_OPEN then
           (if wr request then
              (p, emit (Rejected p WriteFailure)
                    (clearTimeout p
                      (s1\<lparr>responseHandlers := (responseHandlers s1)(requestId := None)\<rparr>)))
            else (p, emit (Wrote request) s1))
         else (p, s1\<lparr>messageQueue := messageQueue s1 @ [request]\<rparr>))"

text \<open>The callback of the request timeout that \<open>send\<close> armed for promise \<open>p\<close>.\<close>

definition requestTimeoutFires :: "nat \<Rightarrow> wsm \<Rightarrow> wsm" where
  "requestTimeoutFires p s =
     (case find (\<lambda>t. fst t = p) (requestTimers s) of
        None \<Rightarrow> s
      | Some t \<Rightarrow>
          emit (Rejected p (RequestTimedOut (snd t) (requestTimeout s)))
            ((clearTimeout p s)\<lparr>responseHandlers := (responseHandlers s)(snd t := None)\<rparr>))"

definition handleNotification :: "rpc_response \<Rightarrow> wsm \<Rightarrow> wsm" where
  "handleNotification response s =
     (if res_method response = ''assets'' then
        (case res_data response of
           AssetsPayload assets \<Rightarrow> s\<lparr>assetsCache := assets\<rparr>
         | OtherPayload _ \<Rightarrow> s)
      else s)"

definition errorMessage :: "string option \<Rightarrow> string" where
  "errorMessage m = (case m of None \<Rightarrow> ''RPC error'' | Some msg \<Rightarrow> if msg = [] then ''RPC error'' else msg)"

definition handleMessage :: "rpc_response \<Rightarrow> wsm \<Rightarrow> wsm" where
  "handleMessage response s =
     (let requestId = res_id response;
          s1 = (if onMessage s then emit (HookMessage response) s else s)
      in case responseHandlers s1 requestId of
           Some p \<Rightarrow>
             (let s2 = clearTimeout p s1;
                  s3 = (case res_error response of
                          Some m \<Rightarrow> emit (Rejected p (RpcFailure (errorMessage m))) s2
                        | None \<Rightarrow> emit (Resolved p response) s2)
              in s3\<lparr>responseHandlers := (responseHandlers s3)(requestId := None)\<rparr>)
         | None \<Rightarrow> handleNotification response (emit (Notification response) s1))"

text \<open>
  \<open>flushMessageQueue\<close>: the guard, then the loop that shifts one request at a time off
  the queue and writes it; a write that throws puts the request back and leaves the loop.
\<close>

function flushLoop :: "(rpc_request \<Rightarrow> bool) \<Rightarrow> wsm \<Rightarrow> wsm" where
  "flushLoop wr s =
     (case messageQueue s of
        [] \<Rightarrow> s
      | request # rest \<Rightarrow>
          if \<not> isConnected s then s
          else if wr request then s
          else flushLoop wr (emit (Wrote request) (s\<lparr>messageQueue := rest\<rparr>)))"
  by pat_completeness auto
termination
  by (relation "measure (\<lambda>(wr, s). length (messageQueue s))") (auto simp: emit_def)

definition flushMessageQueue :: "(rpc_request \<Rightarrow> bool) \<Rightarrow> wsm \<Rightarrow> wsm" where
  "flushMessageQueue wr s =
     (if \<not> isConnected s \<or> messageQueue s = [] then s else flushLoop wr s)"

definition scheduleReconnect :: "wsm \<Rightarrow> wsm" where
  "scheduleReconnect s =
     (if reconnectTimer s \<noteq> None then s
      else
        (let attempts = reconnectAttempts s + 1;
             delay = min (reconnectDelay s * 2 ^ (attempts - 1)) (maxReconnectDelay s)
         in s\<lparr>reconnectAttempts := attempts,
               connectionState := RECONNECTING,
               reconnectTimer := Some delay\<rparr>))"

text \<open>
  \<open>connect\<close> up to the creation of the socket; \<open>ctorThrows\<close> tells whether
  \<open>new WebSocket(url)\<close> throws.  The four handlers it installs follow.
\<close>

definition connect :: "bool \<Rightarrow> wsm \<Rightarrow> wsm" where
  "connect ctorThrows s =
     (if connectionState s = CONNECTED then emit ConnectResolved s
      else
        (let s1 = s\<lparr>connectionState := CONNECTING\<rparr>
         in if ctorThrows then emit ConnectRejected (s1\<lparr>connectionState := FAILED\<rparr>)
            else s1\<lparr>ws := Some WS_CONNECTING\<rparr>))"

definition onOpen :: "(rpc_request \<Rightarrow> bool) \<Rightarrow> wsm \<Rightarrow> wsm" where
  "onOpen wr s =
     (let s1 = s\<lparr>connectionState := CONNECTED, reconnectAttempts := 0\<rparr>;
          s2 = flushMessageQueue wr s1;
          s3 = (if onConnect s2 then emit HookConnect s2 else s2)
      in emit ConnectResolved s3)"

definition onSocketMessage :: "rpc_response option \<Rightarrow> wsm \<Rightarrow> wsm" where
  "onSocketMessage parsed s =
     (case parsed of
        Some response \<Rightarrow> handleMessage response s
      | None \<Rightarrow> if onError s then emit HookError s else s)"

definition onSocketError :: "wsm \<Rightarrow> wsm" where
  "onSocketError s =
     (let s1 = (if onError s then emit HookError s else s)
      in if connectionState s1 = CONNECTING then emit ConnectRejected s1 else s1)"

definition onClose :: "nat \<Rightarrow> wsm \<Rightarrow> wsm" where
  "onClose code s =
     (let s1 = s\<lparr>connectionState := DISCONNECTED, ws := None\<rparr>;
          s2 = (if onDisconnect s1 then emit HookDisconnect s1 else s1)
      in if code \<noteq> 1000 \<and> reconnectAttempts s2 < maxReconnectAttempts s2
         then scheduleReconnect s2
         else if reconnectAttempts s2 \<ge> maxReconnectAttempts s2
         then s2\<lparr>connectionState := FAILED\<rparr>
         else s2)"

definition connectTimeoutFires :: "wsm \<Rightarrow> wsm" where
  "connectTimeoutFires s =
     (if connectionState s = CONNECTING
      then emit ConnectRejected (if ws s \<noteq> None then emit SocketTerminated s else s)
      else s)"

definition reconnectTimerFires :: "bool \<Rightarrow> wsm \<Rightarrow> wsm" where
  "reconnectTimerFires ctorThrows s = connect ctorThrows (s\<lparr>reconnectTimer := None\<rparr>)"

definition disconnect :: "wsm \<Rightarrow> wsm" where
  "disconnect s =
     (let s1 = s\<lparr>reconnectTimer := None\<rparr>;
          s2 = (if ws s1 \<noteq> None then (emit (SocketClosed 1000) s1)\<lparr>ws := None\<rparr> else s1)
      in s2\<lparr>connectionState := DISCONNECTED\<rparr>)"

datatype hook = Hook_connect | Hook_disconnect | Hook_error | Hook_message

definition on :: "hook \<Rightarrow> wsm \<Rightarrow> wsm" where
  "on event s =
     (case event of
        Hook_connect \<Rightarrow> s\<lparr>onConnect := True\<rparr>
      | Hook_disconnect \<Rightarrow> s\<lparr>onDisconnect := True\<rparr>
      | Hook_error \<Rightarrow> s\<lparr>onError := True\<rparr>
      | Hook_message \<Rightarrow> s\<lparr>onMessage := True\<rparr>)"


text \<open>
  What the world does to a transport: the calls of its public methods, the timers it armed
  going off, and the events of its socket.  A socket event reaches the handlers only while
  the transport holds a socket; the library has set the socket's ready state before the
  \<open>open\<close> handler runs.  \<open>step\<close> also gives the ids that the call returned.
\<close>

datatype event =
    CallGetNextRequestId
  | CallSend rpc_request
  | CallConnect bool
  | CallDisconnect
  | CallOn hook
  | RequestTimeout nat
  | ConnectTimeout
  | ReconnectTimer bool
  | SocketOpen
  | SocketMessage "rpc_response option"
  | SocketError
  | SocketClose nat

definition step :: "(rpc_request \<Rightarrow> bool) \<Rightarrow> event \<Rightarrow> wsm \<Rightarrow> wsm \<times> nat list" where
  "step wr ev s =
     (case ev of
        CallGetNextRequestId \<Rightarrow> (snd (getNextRequestId s), [fst (getNextRequestId s)])
      | CallSend request \<Rightarrow> (snd (send wr request s), [])
      | CallConnect ctorThrows \<Rightarrow> (connect ctorThrows s, [])
      | CallDisconnect \<Rightarrow> (disconnect s, [])
      | CallOn h \<Rightarrow> (on h s, [])
      | RequestTimeout p \<Rightarrow> (requestTimeoutFires p s, [])
      | ConnectTimeout \<Rightarrow> (connectTimeoutFires s, [])
      | ReconnectTimer ctorThrows \<Rightarrow>
          (if reconnectTimer s = None then s else reconnectTimerFires ctorThrows s, [])
      | SocketOpen \<Rightarrow> (if ws s = None then s else onOpen wr (s\<lparr>ws := Some WS_OPEN\<rparr>), [])
      | SocketMessage parsed \<Rightarrow> (if ws s = None then s else onSocketMessage parsed s, [])
      | SocketError \<Rightarrow> (if ws s = None then s else onSocketError s, [])
      | SocketClose code \<Rightarrow> (if ws s = None then s else onClose code s, []))"

fun run :: "(rpc_request \<Rightarrow> bool) \<Rightarrow> event list \<Rightarrow> wsm \<Rightarrow> wsm \<times> nat list" where
  "run wr [] s = (s, [])"
| "run wr (ev # evs) s =
     (let r1 = step wr ev s; r2 = run wr evs (fst r1) in (fst r2, snd r1 @ snd r2))"

definition isWrite :: "effect \<Rightarrow> bool" where
  "isWrite e = (case e of Wrote _ \<Rightarrow> True | _ \<Rightarrow> False)"


text \<open>
  Two facts hold in every state that a transport reaches from its constructor: the socket
  is open only in state \<open>CONNECTED\<close>, and every armed request timeout belongs to a promise
  that a \<open>send\<close> has created already.
\<close>

definition consistent :: "wsm \<Rightarrow> bool" where
  "consistent s \<longleftrightarrow>
     (ws s = Some WS_OPEN \<longrightarrow> connectionState s = CONNECTED)
     \<and> (\<forall>t \<in> set (requestTimers s). fst t < promiseCounter s)"

section \<open>Sending from the wallet (\<open>WalletService.sendCrypto\<close>)\<close>

subsection \<open>Strings and decimal numerals\<close>

text \<open>
  JavaScript strings are modelled as lists of characters.  \<open>trim\<close> removes the ASCII white
  space (tab, line feed, vertical tab, form feed, carriage return, space) from both ends;
  \<open>splitOn\<close> is \<open>String.prototype.split\<close> with a one-character separator.
\<close>

definition isWhitespace :: "char \<Rightarrow> bool" where
  "isWhitespace c \<longleftrightarrow> c \<in> set [CHR 0x09, CHR 0x0A, CHR 0x0B, CHR 0x0C, CHR 0x0D, CHR 0x20]"

definition trim :: "string \<Rightarrow> string" where
  "trim s = rev (dropWhile isWhitespace (rev (dropWhile isWhitespace s)))"

fun splitOn :: "char \<Rightarrow> string \<Rightarrow> string list" where
  "splitOn c [] = [[]]"
| "splitOn c (x # xs) =
     (if x = c then [] # splitOn c xs
      else (case splitOn c xs of [] \<Rightarrow> [[x]] | p # ps \<Rightarrow> (x # p) # ps))"

definition element :: "'a list \<Rightarrow> nat \<Rightarrow> 'a option" where
  "element xs i = (if i < length xs then Some (xs ! i) else None)"

definition isDigit :: "char \<Rightarrow> bool" where
  "isDigit c \<longleftrightarrow> 48 \<le> (of_char c :: nat) \<and> (of_char c :: nat) \<le> 57"

definition digitValue :: "char \<Rightarrow> nat" where
  "digitValue c = of_char c - 48"

definition natOfDigits :: "string \<Rightarrow> nat" where
  "natOfDigits ds = foldl (\<lambda>n c. 10 * n + digitValue c) 0 ds"

text \<open>The test of the regular expression \<open>/^[0-9]+$/\<close>.\<close>

definition isNumeric :: "string \<Rightarrow> bool" where
  "isNumeric s \<longleftrightarrow> s \<noteq> [] \<and> list_all isDigit s"

text \<open>\<open>s.replace(/^0+/, '')\<close> and \<open>s || d\<close> on strings.\<close>

definition stripLeadingZeros :: "string \<Rightarrow> string" where
  "stripLeadingZeros s = dropWhile (\<lambda>c. c = CHR ''0'') s"

definition orElse :: "string \<Rightarrow> string \<Rightarrow> string" where
  "orElse s d = (if s = [] then d else s)"

subsection \<open>\<open>toSmallest\<close>\<close>

definition toSmallest :: "string \<Rightarrow> nat \<Rightarrow> string" where
  "toSmallest val decimals =
     (let parts = splitOn CHR ''.'' (trim val);
          wholeRaw = element parts 0;
          fracRaw = element parts 1;
          whole = (case wholeRaw of None \<Rightarrow> ''0'' | Some w \<Rightarrow> w);
          frac = (case fracRaw of None \<Rightarrow> [] | Some f \<Rightarrow> f);
          cleanWhole = orElse (stripLeadingZeros whole) ''0'';
          fracPadded = take decimals (frac @ replicate decimals CHR ''0'');
          combined = orElse (stripLeadingZeros (cleanWhole @ fracPadded)) ''0''
      in combined)"

definition getNativeTokenDecimals :: "string \<Rightarrow> nat" where
  "getNativeTokenDecimals chain =
     (case map_of
        [(''ethereum'', 18), (''base'', 18), (''arbitrum'', 18), (''polygon'', 18),
         (''tron'', 6), (''bitcoin'', 8), (''solana'', 9),
         (''ethereumErc4337'', 18), (''baseErc4337'', 18), (''arbitrumErc4337'', 18),
         (''polygonErc4337'', 18)] chain of
        None \<Rightarrow> 18
      | Some d \<Rightarrow> if d = 0 then 18 else d)"

text \<open>
  What the specification says of the conversion: a well-formed amount is a run of digits,
  or digits, a point and digits, with a digit somewhere; its value is the rational number it
  denotes; \<open>showNat\<close> writes a natural number in decimal without leading zeros.
\<close>

definition wholePart :: "string \<Rightarrow> string" where
  "wholePart s = takeWhile isDigit s"

definition fractionPart :: "string \<Rightarrow> string" where
  "fractionPart s = drop 1 (dropWhile isDigit s)"

definition wellFormedAmount :: "string \<Rightarrow> bool" where
  "wellFormedAmount s \<longleftrightarrow>
     (case dropWhile isDigit s of
        [] \<Rightarrow> s \<noteq> []
      | c # f \<Rightarrow> c = CHR ''.'' \<and> list_all isDigit f \<and> (wholePart s \<noteq> [] \<or> f \<noteq> []))"

definition amountValue :: "string \<Rightarrow> rat" where
  "amountValue s =
     of_nat (natOfDigits (wholePart s))
     + of_nat (natOfDigits (fractionPart s)) / 10 ^ length (fractionPart s)"

definition digitChar :: "nat \<Rightarrow> char" where
  "digitChar n = char_of (48 + n)"

function showNat :: "nat \<Rightarrow> string" where
  "showNat n = (if n < 10 then [digitChar n] else showNat (n div 10) @ [digitChar (n mod 10)])"
  by pat_completeness auto
termination
  by (relation "measure id") auto

subsection \<open>Exceptions and \<open>BigInt\<close>\<close>

datatype http_exception =
    BadRequestException string
  | UnprocessableEntityException string
  | ServiceUnavailableException string

text \<open>A thrown value: one of the three HTTP exceptions, another \<open>Error\<close>, or no \<open>Error\<close> at all.\<close>

datatype thrown = Http http_exception | JsError string | NonError

definition exceptionMessage :: "http_exception \<Rightarrow> string" where
  "exceptionMessage e =
     (case e of
        BadRequestException m \<Rightarrow> m
      | UnprocessableEntityException m \<Rightarrow> m
      | ServiceUnavailableException m \<Rightarrow> m)"

definition messageOf :: "thrown \<Rightarrow> string" where
  "messageOf error =
     (case error of
        Http e \<Rightarrow> exceptionMessage e
      | JsError m \<Rightarrow> m
      | NonError \<Rightarrow> ''Unknown error'')"

text \<open>
  \<open>BigInt(s)\<close> for a string: white space is trimmed, the empty string is 0, then either a
  prefix \<open>0x\<close>, \<open>0o\<close> or \<open>0b\<close> with digits of that base, or decimal digits with an
  optional sign; anything else throws a \<open>SyntaxError\<close> (the value \<open>None\<close>).
\<close>

definition digitInBase :: "nat \<Rightarrow> char \<Rightarrow> nat option" where
  "digitInBase b c =
     (let n = (of_char c :: nat);
          v = (if 48 \<le> n \<and> n \<le> 57 then Some (n - 48)
               else if 97 \<le> n \<and> n \<le> 122 then Some (n - 87)
               else if 65 \<le> n \<and> n \<le> 90 then Some (n - 55)
               else None)
      in case v of None \<Rightarrow> None | Some d \<Rightarrow> if d < b then Some d else None)"

definition natInBase :: "nat \<Rightarrow> string \<Rightarrow> nat option" where
  "natInBase b ds =
     (if ds = [] then None
      else foldl (\<lambda>acc c. case acc of
                             None \<Rightarrow> None
                           | Some n \<Rightarrow> (case digitInBase b c of
                                         None \<Rightarrow> None
                                       | Some v \<Rightarrow> Some (b * n + v)))
             (Some 0) ds)"

definition js_BigInt :: "string \<Rightarrow> int option" where
  "js_BigInt s =
     (let t = trim s
      in if t = [] then Some 0
         else if take 2 t = ''0x'' \<or> take 2 t = ''0X'' then map_option int (natInBase 16 (drop 2 t))
         else if take 2 t = ''0o'' \<or> take 2 t = ''0O'' then map_option int (natInBase 8 (drop 2 t))
         else if take 2 t = ''0b'' \<or> take 2 t = ''0B'' then map_option int (natInBase 2 (drop 2 t))
         else if hd t = CHR ''+'' then map_option int (natInBase 10 (tl t))
         else if hd t = CHR ''-'' then map_option (\<lambda>n. - int n) (natInBase 10 (tl t))
         else map_option int (natInBase 10 t))"

definition bigIntSyntaxError :: "string \<Rightarrow> thrown" where
  "bigIntSyntaxError s = JsError (''Cannot convert '' @ s @ '' to a BigInt'')"

fun startsWith :: "string \<Rightarrow> string \<Rightarrow> bool" where
  "startsWith s [] = True"
| "startsWith [] (p # ps) = False"
| "startsWith (c # cs) (p # ps) = (c = p \<and> startsWith cs ps)"

fun includesText :: "string \<Rightarrow> string \<Rightarrow> bool" where
  "includesText [] sub = (sub = [])"
| "includesText (c # cs) sub = (startsWith (c # cs) sub \<or> includesText cs sub)"

subsection \<open>The balance pre-check\<close>

text \<open>
  The body of the pre-check from the point where \<open>availableSmallest\<close> and
  \<open>balanceSource\<close> have been determined, then the \<open>catch\<close> around it, which passes on an
  \<open>UnprocessableEntityException\<close> only.  \<open>None\<close> means that the send goes on.
\<close>

definition insufficientBalance :: "string \<Rightarrow> string \<Rightarrow> string \<Rightarrow> http_exception" where
  "insufficientBalance availableSmallest balanceSource requestedSmallest =
     UnprocessableEntityException
       (''Insufficient balance. Available: '' @ availableSmallest @ '' ('' @ balanceSource
          @ ''), Requested: '' @ requestedSmallest)"

definition checkBalance :: "string \<Rightarrow> string \<Rightarrow> string \<Rightarrow> thrown option" where
  "checkBalance availableSmallest balanceSource requestedSmallest =
     (if isNumeric availableSmallest then
        (case js_BigInt availableSmallest of
           None \<Rightarrow> Some (bigIntSyntaxError availableSmallest)
         | Some available \<Rightarrow>
             (case js_BigInt requestedSmallest of
                None \<Rightarrow> Some (bigIntSyntaxError requestedSmallest)
              | Some requested \<Rightarrow>
                  if available < requested
                  then Some (Http (insufficientBalance availableSmallest balanceSource
                                     requestedSmallest))
                  else None))
      else None)"

definition balancePreCheck :: "string \<Rightarrow> string \<Rightarrow> string \<Rightarrow> http_exception option" where
  "balancePreCheck availableSmallest balanceSource requestedSmallest =
     (case checkBalance availableSmallest balanceSource requestedSmallest of
        Some (Http (UnprocessableEntityException m)) \<Rightarrow> Some (UnprocessableEntityException m)
      | _ \<Rightarrow> None)"

subsection \<open>The signer account and the transfer\<close>

text \<open>
  What a transfer method of the signer returns: a string, an object (with its \<open>hash\<close>
  field, its \<open>txHash\<close> field and the string \<open>String(result)\<close>), or \<open>null\<close> or
  \<open>undefined\<close> (with \<open>String(result)\<close>).  A field is absent, a string, or another value
  that is truthy or not.
\<close>

datatype js_field = Absent | StringField string | OtherField bool

datatype tx_result =
    StringResult string
  | ObjectResult js_field js_field string
  | NullishResult string

datatype hash_value = HashString string | HashOther

datatype 'a outcome = Throws thrown | Returns 'a

datatype transfer_args =
    TokenToRecipient string string int
  | TokenTo string string int
  | NativeTo string int

datatype send_args =
    SendNative string string
  | SendWithToken string int string

text \<open>The methods that the account has, each a function from its arguments to what the call does.\<close>

record account =
  acc_transfer :: "(transfer_args \<Rightarrow> tx_result outcome) option"
  acc_sendToken :: "(string \<Rightarrow> string \<Rightarrow> int \<Rightarrow> tx_result outcome) option"
  acc_transferToken :: "(string \<Rightarrow> string \<Rightarrow> int \<Rightarrow> tx_result outcome) option"
  acc_send :: "(send_args \<Rightarrow> tx_result outcome) option"

datatype signer_call =
    Transfer transfer_args
  | SendToken string string int
  | TransferToken string string int
  | Send send_args

definition truthy :: "js_field \<Rightarrow> bool" where
  "truthy f = (case f of Absent \<Rightarrow> False | StringField s \<Rightarrow> s \<noteq> [] | OtherField b \<Rightarrow> b)"

definition fieldValue :: "js_field \<Rightarrow> hash_value" where
  "fieldValue f = (case f of StringField s \<Rightarrow> HashString s | _ \<Rightarrow> HashOther)"

text \<open>
  \<open>typeof result === 'string' ? result : (result?.hash || result?.txHash || String(result))\<close>
\<close>

definition hashOf :: "tx_result \<Rightarrow> hash_value" where
  "hashOf result =
     (case result of
        StringResult s \<Rightarrow> HashString s
      | ObjectResult h t str \<Rightarrow>
          if truthy h then fieldValue h else if truthy t then fieldValue t else HashString str
      | NullishResult str \<Rightarrow> HashString str)"

text \<open>The same without the optional chaining, as the native transfer has it.\<close>

definition hashOfNative :: "tx_result \<Rightarrow> thrown + hash_value" where
  "hashOfNative result =
     (case result of
        NullishResult str \<Rightarrow>
          Inl (JsError (''Cannot read properties of '' @ str @ '' (reading '' @ [CHR 0x27]
                          @ ''hash'' @ [CHR 0x27] @ '')''))
      | _ \<Rightarrow> Inr (hashOf result))"

definition falsyHash :: "hash_value \<Rightarrow> bool" where
  "falsyHash h = (case h of HashString s \<Rightarrow> s = [] | HashOther \<Rightarrow> False)"

text \<open>
  The token transfer keeps the calls made so far, the flag \<open>sent\<close> and \<open>txHash\<close>.
\<close>

type_synonym dispatch_state = "signer_call list \<times> bool \<times> hash_value"

definition tryTransfer :: "account \<Rightarrow> string \<Rightarrow> string \<Rightarrow> int \<Rightarrow> dispatch_state" where
  "tryTransfer account tokenAddress recipientAddress amountBigInt =
     (case acc_transfer account of
        None \<Rightarrow> ([], False, HashString [])
      | Some f \<Rightarrow>
          (case f (TokenToRecipient tokenAddress recipientAddress amountBigInt) of
             Returns result \<Rightarrow>
               ([Transfer (TokenToRecipient tokenAddress recipientAddress amountBigInt)],
                True, hashOf result)
           | Throws e1 \<Rightarrow>
               (case f (TokenTo tokenAddress recipientAddress amountBigInt) of
                  Returns result \<Rightarrow>
                    ([Transfer (TokenToRecipient tokenAddress recipientAddress amountBigInt),
                      Transfer (TokenTo tokenAddress recipientAddress amountBigInt)],
                     True, hashOf result)
                | Throws e2 \<Rightarrow>
                    ([Transfer (TokenToRecipient tokenAddress recipientAddress amountBigInt),
                      Transfer (TokenTo tokenAddress recipientAddress amountBigInt)],
                     False, HashString []))))"

definition trySendToken ::
  "account \<Rightarrow> string \<Rightarrow> string \<Rightarrow> int \<Rightarrow> dispatch_state \<Rightarrow> dispatch_state" where
  "trySendToken account tokenAddress recipientAddress amountBigInt st =
     (case st of (calls, sent, txHash) \<Rightarrow>
        (case acc_sendToken account of
           None \<Rightarrow> st
         | Some f \<Rightarrow>
             if sent then st
             else (case f tokenAddress recipientAddress amountBigInt of
                     Returns result \<Rightarrow>
                       (calls @ [SendToken tokenAddress recipientAddress amountBigInt],
                        True, hashOf result)
                   | Throws e \<Rightarrow>
                       (calls @ [SendToken tokenAddress recipientAddress amountBigInt],
                        sent, txHash))))"

definition tryTransferToken ::
  "account \<Rightarrow> string \<Rightarrow> string \<Rightarrow> int \<Rightarrow> dispatch_state \<Rightarrow> dispatch_state" where
  "tryTransferToken account tokenAddress recipientAddress amountBigInt st =
     (case st of (calls, sent, txHash) \<Rightarrow>
        (case acc_transferToken account of
           None \<Rightarrow> st
         | Some f \<Rightarrow>
             if sent then st
             else (case f tokenAddress recipientAddress amountBigInt of
                     Returns result \<Rightarrow>
                       (calls @ [TransferToken tokenAddress recipientAddress amountBigInt],
                        True, hashOf result)
                   | Throws e \<Rightarrow>
                       (calls @ [TransferToken tokenAddress recipientAddress amountBigInt],
                        sent, txHash))))"

definition notSupported :: thrown where
  "notSupported =
     Http (ServiceUnavailableException ''Token transfer method not supported by this account'')"

definition finishTokenTransfer :: "dispatch_state \<Rightarrow> signer_call list \<times> (thrown + hash_value)" where
  "finishTokenTransfer st =
     (case st of (calls, sent, txHash) \<Rightarrow>
        if \<not> sent \<or> falsyHash txHash then (calls, Inl notSupported) else (calls, Inr txHash))"

definition tokenTransfer ::
  "account \<Rightarrow> string \<Rightarrow> string \<Rightarrow> string \<Rightarrow> signer_call list \<times> (thrown + hash_value)" where
  "tokenTransfer account tokenAddress recipientAddress requestedSmallest =
     (case js_BigInt requestedSmallest of
        None \<Rightarrow> ([], Inl (bigIntSyntaxError requestedSmallest))
      | Some amountBigInt \<Rightarrow>
          (case tryTransferToken account tokenAddress recipientAddress amountBigInt
                  (trySendToken account tokenAddress recipientAddress amountBigInt
                    (tryTransfer account tokenAddress recipientAddress amountBigInt)) of
             (calls, sent, txHash) \<Rightarrow>
               (case acc_send account of
                  None \<Rightarrow> finishTokenTransfer (calls, sent, txHash)
                | Some f \<Rightarrow>
                    if sent then finishTokenTransfer (calls, sent, txHash)
                    else (case f (SendWithToken recipientAddress amountBigInt tokenAddress) of
                            Returns result \<Rightarrow>
                              finishTokenTransfer
                                (calls @ [Send (SendWithToken recipientAddress amountBigInt
                                                  tokenAddress)],
                                 True, hashOf result)
                          | Throws e \<Rightarrow>
                              (calls @ [Send (SendWithToken recipientAddress amountBigInt
                                                tokenAddress)],
                               Inl e)))))"

definition nativeTransfer ::
  "account \<Rightarrow> string \<Rightarrow> string \<Rightarrow> string \<Rightarrow> signer_call list \<times> (thrown + hash_value)" where
  "nativeTransfer account chain recipientAddress requestedSmallest =
     (case acc_send account of
        Some f \<Rightarrow>
          (case f (SendNative recipientAddress requestedSmallest) of
             Returns result \<Rightarrow>
               ([Send (SendNative recipientAddress requestedSmallest)], hashOfNative result)
           | Throws e \<Rightarrow> ([Send (SendNative recipientAddress requestedSmallest)], Inl e))
      | None \<Rightarrow>
          (case acc_transfer account of
             Some f \<Rightarrow>
               (case js_BigInt requestedSmallest of
                  None \<Rightarrow> ([], Inl (bigIntSyntaxError requestedSmallest))
                | Some amount \<Rightarrow>
                    (case f (NativeTo recipientAddress amount) of
                       Returns result \<Rightarrow>
                         ([Transfer (NativeTo recipientAddress amount)], hashOfNative result)
                     | Throws e \<Rightarrow> ([Transfer (NativeTo recipientAddress amount)], Inl e)))
           | None \<Rightarrow>
               ([], Inl (Http (BadRequestException
                                 (''Chain '' @ chain @ '' does not support send operation''))))))"

text \<open>The \<open>catch\<close> around the transfer: what is thrown becomes one of the three exceptions.\<close>

definition classifySendError :: "thrown \<Rightarrow> http_exception" where
  "classifySendError error =
     (case error of
        Http (BadRequestException m) \<Rightarrow> BadRequestException m
      | Http (UnprocessableEntityException m) \<Rightarrow> UnprocessableEntityException m
      | _ \<Rightarrow>
          (let errorMessage = messageOf error
           in if includesText errorMessage ''insufficient'' \<or> includesText errorMessage ''balance''
              then UnprocessableEntityException ''Insufficient balance for this transaction''
              else if includesText errorMessage ''network'' \<or> includesText errorMessage ''timeout''
                      \<or> includesText errorMessage ''RPC''
              then ServiceUnavailableException
                     ''Blockchain network is unavailable. Please try again later.''
              else if includesText errorMessage ''invalid address'' \<or> includesText errorMessage ''address''
              then BadRequestException (''Invalid recipient address: '' @ errorMessage)
              else ServiceUnavailableException (''Transaction failed: '' @ errorMessage)))"

definition isToken :: "string option \<Rightarrow> bool" where
  "isToken tokenAddress = (case tokenAddress of None \<Rightarrow> False | Some t \<Rightarrow> t \<noteq> [])"

definition noHashReturned :: thrown where
  "noHashReturned =
     Http (ServiceUnavailableException ''Transaction submitted but no transaction hash returned'')"

definition sendTransaction ::
  "account \<Rightarrow> string \<Rightarrow> string \<Rightarrow> string option \<Rightarrow> string
     \<Rightarrow> signer_call list \<times> (http_exception + string)" where
  "sendTransaction account chain recipientAddress tokenAddress requestedSmallest =
     (let attempt =
            (case tokenAddress of
               None \<Rightarrow> nativeTransfer account chain recipientAddress requestedSmallest
             | Some t \<Rightarrow>
                 if t \<noteq> [] then tokenTransfer account t recipientAddress requestedSmallest
                 else nativeTransfer account chain recipientAddress requestedSmallest)
      in case snd attempt of
           Inl e \<Rightarrow> (fst attempt, Inl (classifySendError e))
         | Inr (HashString h) \<Rightarrow>
             if h = [] then (fst attempt, Inl (classifySendError noHashReturned))
             else (fst attempt, Inr h)
         | Inr HashOther \<Rightarrow> (fst attempt, Inl (classifySendError noHashReturned)))"

text \<open>
  \<open>sendCrypto\<close> from the pre-check on: an exception of the pre-check leaves the function
  through both \<open>catch\<close> clauses unchanged, before the signer is called.
\<close>

definition checkBalanceAndSend ::
  "account \<Rightarrow> string \<Rightarrow> string \<Rightarrow> string option \<Rightarrow> string \<Rightarrow> string \<Rightarrow> string
     \<Rightarrow> signer_call list \<times> (http_exception + string)" where
  "checkBalanceAndSend account chain recipientAddress tokenAddress requestedSmallest
       availableSmallest balanceSource =
     (case balancePreCheck availableSmallest balanceSource requestedSmallest of
        Some e \<Rightarrow> ([], Inl e)
      | None \<Rightarrow> sendTransaction account chain recipientAddress tokenAddress requestedSmallest)"

text \<open>
  \<open>sendCrypto\<close> from the conversion of the amount on, for the decimals resolved for the
  token and the available balance as the signer, the provider or the indexer gave it.
\<close>

definition sendCryptoResolved ::
  "account \<Rightarrow> string \<Rightarrow> string \<Rightarrow> string \<Rightarrow> string option \<Rightarrow> nat \<Rightarrow> string \<Rightarrow> string
     \<Rightarrow> signer_call list \<times> (http_exception + string)" where
  "sendCryptoResolved account chain recipientAddress amount tokenAddress tokenDecimals
       availableSmallest balanceSource =
     (let requestedSmallest =
            toSmallest amount
              (if isToken tokenAddress then tokenDecimals else getNativeTokenDecimals chain)
      in if trim recipientAddress = []
         then ([], Inl (BadRequestException ''Recipient address is required''))
         else checkBalanceAndSend account chain recipientAddress tokenAddress requestedSmallest
                availableSmallest balanceSource)"

text \<open>
  The entry points for a token in the order of the specification, those that the account
  has; what a call does; and the calls made up to the first one that returns.
\<close>

definition entryPoints :: "account \<Rightarrow> string \<Rightarrow> string \<Rightarrow> int \<Rightarrow> signer_call list" where
  "entryPoints account token recipient amount =
     (if acc_transfer account \<noteq> None
      then [Transfer (TokenToRecipient token recipient amount),
            Transfer (TokenTo token recipient amount)] else [])
     @ (if acc_sendToken account \<noteq> None then [SendToken token recipient amount] else [])
     @ (if acc_transferToken account \<noteq> None then [TransferToken token recipient amount] else [])
     @ (if acc_send account \<noteq> None then [Send (SendWithToken recipient amount token)] else [])"

definition perform :: "account \<Rightarrow> signer_call \<Rightarrow> tx_result outcome" where
  "perform account call =
     (case call of
        Transfer args \<Rightarrow>
          (case acc_transfer account of Some f \<Rightarrow> f args | None \<Rightarrow> Throws NonError)
      | SendToken t r a \<Rightarrow>
          (case acc_sendToken account of Some f \<Rightarrow> f t r a | None \<Rightarrow> Throws NonError)
      | TransferToken t r a \<Rightarrow>
          (case acc_transferToken account of Some f \<Rightarrow> f t r a | None \<Rightarrow> Throws NonError)
      | Send args \<Rightarrow>
          (case acc_send account of Some f \<Rightarrow> f args | None \<Rightarrow> Throws NonError))"

fun firstSuccess :: "account \<Rightarrow> signer_call list \<Rightarrow> signer_call list \<times> tx_result option" where
  "firstSuccess account [] = ([], None)"
| "firstSuccess account (call # calls) =
     (case perform account call of
        Returns result \<Rightarrow> ([call], Some result)
      | Throws e \<Rightarrow> (call # fst (firstSuccess account calls), snd (firstSuccess account calls)))"

text \<open>The hash as the claim has it: the result when it is a string, else one of its two fields.\<close>

definition hashAsClaimed :: "tx_result \<Rightarrow> string \<Rightarrow> bool" where
  "hashAsClaimed result h =
     (case result of
        StringResult s \<Rightarrow> h = s
      | ObjectResult hf tf str \<Rightarrow> hf = StringField h \<or> tf = StringField h
      | NullishResult str \<Rightarrow> False)"

section \<open>Payment channels (\<open>ChannelService\<close>)\<close>

text \<open>
  Modelled from the spec: the enumeration \<open>StateIntent\<close> is declared in \<open>types.ts\<close>, which
  is not among the sources; its members are the four intents that the specification lists
  (the service uses \<open>INITIALIZE\<close>, \<open>RESIZE\<close> and \<open>FINALIZE\<close>).
\<close>

datatype state_intent = INITIALIZE | OPERATE | RESIZE | FINALIZE

record channel =
  participants :: "string list"
  adjudicator :: string
  challenge :: int
  nonce :: int

record channel_state =
  intent :: state_intent
  version :: int
  data :: string
  allocations :: "(int \<times> int) list"

text \<open>What \<open>createChannel\<close> returns: the channel with four more fields.\<close>

record channel_with_state = channel +
  channelId :: string
  state :: channel_state
  chainId :: nat
  status :: string

text \<open>
  A scalar of the clearnode's reply, as \<open>BigInt\<close> sees it: an integral number, a string, a
  boolean, or a value that \<open>BigInt\<close> rejects.
\<close>

datatype json_scalar = JsonNumber int | JsonString string | JsonBool bool | JsonUnconvertible

definition toBigInt :: "json_scalar \<Rightarrow> int option" where
  "toBigInt v =
     (case v of
        JsonNumber n \<Rightarrow> Some n
      | JsonString s \<Rightarrow> js_BigInt s
      | JsonBool b \<Rightarrow> Some (if b then 1 else 0)
      | JsonUnconvertible \<Rightarrow> None)"

text \<open>The payloads \<open>response.res[2]\<close> of the three channel methods.\<close>

record create_channel_data =
  cd_participant0 :: string
  cd_participant1 :: string
  cd_adjudicator :: string
  cd_challenge :: json_scalar
  cd_nonce :: json_scalar
  cd_user_signature :: string
  cd_server_signature :: string

record channel_update_data =
  ud_version :: json_scalar
  ud_data :: string
  ud_allocations :: "(json_scalar \<times> json_scalar) list"
  ud_user_signature :: string
  ud_server_signature :: string

text \<open>The arguments of a call of the custody contract.\<close>

record contract_call =
  cc_address :: string
  cc_functionName :: string
  cc_channelId :: string
  cc_state :: channel_state
  cc_sigs :: "string list"

text \<open>
  The collaborators of the service: the custody addresses per chain, the two functions of
  the library that make the channel id (the encoder may throw), and the two clients.
\<close>

record channel_service =
  custodyAddresses :: "nat \<rightharpoonup> string"
  encodeAbiParameters :: "string list \<times> string \<times> int \<times> int \<Rightarrow> string option"
  keccak256 :: "string \<Rightarrow> string"
  writeContract :: "contract_call \<Rightarrow> string outcome"
  waitForTransactionReceipt :: "string \<Rightarrow> unit outcome"

datatype channel_error =
    BigIntFailed
  | EncodingFailed
  | CustodyAddressNotFound nat
  | WriteContractFailed thrown
  | ReceiptFailed thrown

definition computeChannelId :: "channel_service \<Rightarrow> 'a channel_scheme \<Rightarrow> string option" where
  "computeChannelId service channel =
     map_option (keccak256 service)
       (encodeAbiParameters service
          (participants channel, adjudicator channel, challenge channel, nonce channel))"

definition initialState :: "int option \<Rightarrow> channel_state" where
  "initialState initialDeposit =
     \<lparr> intent = INITIALIZE,
       version = 0,
       data = ''0x'',
       allocations =
         (case initialDeposit of
            None \<Rightarrow> [(0, 0), (1, 0)]
          | Some deposit \<Rightarrow> if deposit \<noteq> 0 then [(0, deposit), (1, 0)] else [(0, 0), (1, 0)]) \<rparr>"

text \<open>
  The lookup of the custody address with its test \<open>!custodyAddress\<close>, and the submission:
  the call of the contract, then the wait for the receipt.  The calls made are returned with
  the outcome.
\<close>

definition custodyAddress :: "channel_service \<Rightarrow> nat \<Rightarrow> string option" where
  "custodyAddress service chain =
     (case custodyAddresses service chain of
        None \<Rightarrow> None
      | Some a \<Rightarrow> if a = [] then None else Some a)"

definition submit :: "channel_service \<Rightarrow> contract_call \<Rightarrow> 'a \<Rightarrow> contract_call list \<times> (channel_error + 'a)" where
  "submit service call result =
     (case writeContract service call of
        Throws e \<Rightarrow> ([call], Inl (WriteContractFailed e))
      | Returns txHash \<Rightarrow>
          (case waitForTransactionReceipt service txHash of
             Throws e \<Rightarrow> ([call], Inl (ReceiptFailed e))
           | Returns receipt \<Rightarrow> ([call], Inr result)))"

text \<open>\<open>createChannel\<close> from the reply of the clearnode on.\<close>

definition createChannel ::
  "channel_service \<Rightarrow> nat \<Rightarrow> string \<Rightarrow> int option \<Rightarrow> create_channel_data
     \<Rightarrow> contract_call list \<times> (channel_error + channel_with_state)" where
  "createChannel service chain token initialDeposit channelData =
     (case toBigInt (cd_challenge channelData) of
        None \<Rightarrow> ([], Inl BigIntFailed)
      | Some c \<Rightarrow>
     (case toBigInt (cd_nonce channelData) of
        None \<Rightarrow> ([], Inl BigIntFailed)
      | Some n \<Rightarrow>
     (let channel = \<lparr> participants = [cd_participant0 channelData, cd_participant1 channelData],
                      adjudicator = cd_adjudicator channelData,
                      challenge = c,
                      nonce = n \<rparr>;
          st = initialState initialDeposit
      in case computeChannelId service channel of
           None \<Rightarrow> ([], Inl EncodingFailed)
         | Some cid \<Rightarrow>
        (case custodyAddress service chain of
           None \<Rightarrow> ([], Inl (CustodyAddressNotFound chain))
         | Some address \<Rightarrow>
             (let signatures = [cd_user_signature channelData, cd_server_signature channelData]
              in submit service
                   \<lparr> cc_address = address, cc_functionName = ''create'', cc_channelId = cid,
                     cc_state = st, cc_sigs = signatures \<rparr>
                   (channel.extend channel
                      (channel_with_state.fields cid st chain ''active'')))))))"

fun allBigInt :: "(json_scalar \<times> json_scalar) list \<Rightarrow> (int \<times> int) list option" where
  "allBigInt [] = Some []"
| "allBigInt (alloc # allocs) =
     (case toBigInt (fst alloc) of
        None \<Rightarrow> None
      | Some i \<Rightarrow>
          (case toBigInt (snd alloc) of
             None \<Rightarrow> None
           | Some a \<Rightarrow> map_option ((#) (i, a)) (allBigInt allocs)))"

text \<open>\<open>resizeChannel\<close> and \<open>closeChannel\<close> from the reply of the clearnode on.\<close>

definition resizeChannel ::
  "channel_service \<Rightarrow> string \<Rightarrow> nat \<Rightarrow> channel_update_data
     \<Rightarrow> contract_call list \<times> (channel_error + channel_state)" where
  "resizeChannel service cid chain resizeData =
     (case toBigInt (ud_version resizeData) of
        None \<Rightarrow> ([], Inl BigIntFailed)
      | Some v \<Rightarrow>
     (case allBigInt (ud_allocations resizeData) of
        None \<Rightarrow> ([], Inl BigIntFailed)
      | Some allocs \<Rightarrow>
     (let newState = \<lparr> intent = RESIZE, version = v, data = ud_data resizeData,
                       allocations = allocs \<rparr>
      in case custodyAddress service chain of
           None \<Rightarrow> ([], Inl (CustodyAddressNotFound chain))
         | Some address \<Rightarrow>
             (let signatures = [ud_user_signature resizeData, ud_server_signature resizeData]
              in submit service
                   \<lparr> cc_address = address, cc_functionName = ''resize'', cc_channelId = cid,
                     cc_state = newState, cc_sigs = signatures \<rparr>
                   newState))))"

definition closeChannel ::
  "channel_service \<Rightarrow> string \<Rightarrow> nat \<Rightarrow> channel_update_data
     \<Rightarrow> contract_call list \<times> (channel_error + channel_state)" where
  "closeChannel service cid chain closeData =
     (case toBigInt (ud_version closeData) of
        None \<Rightarrow> ([], Inl BigIntFailed)
      | Some v \<Rightarrow>
     (case allBigInt (ud_allocations closeData) of
        None \<Rightarrow> ([], Inl BigIntFailed)
      | Some allocs \<Rightarrow>
     (let finalState = \<lparr> intent = FINALIZE, version = v, data = ''0x'',
                         allocations = allocs \<rparr>
      in case custodyAddress service chain of
           None \<Rightarrow> ([], Inl (CustodyAddressNotFound chain))
         | Some address \<Rightarrow>
             (let signatures = [ud_user_signature closeData, ud_server_signature closeData]
              in submit service
                   \<lparr> cc_address = address, cc_functionName = ''close'', cc_channelId = cid,
                     cc_state = finalState, cc_sigs = signatures \<rparr>
                   finalState))))"

subsection \<open>An example service\<close>

text \<open>
  Stand-ins for the library and the clients, to run the service on: the encoder joins the
  fields, the hash function marks its argument, the contract call and the receipt succeed.
\<close>

definition showInt :: "int \<Rightarrow> string" where
  "showInt i = (if i < 0 then CHR ''-'' # showNat (nat (- i)) else showNat (nat i))"

definition exampleService :: channel_service where
  "exampleService =
     \<lparr> custodyAddresses = [8453 \<mapsto> ''0xCustody''],
       encodeAbiParameters =
         (\<lambda>(ps, a, c, n). Some (concat (map (\<lambda>p. p @ '','') ps) @ a @ '','' @ showInt c
                                  @ '','' @ showInt n)),
       keccak256 = (\<lambda>bytes. ''keccak256('' @ bytes @ '')''),
       writeContract = (\<lambda>call. Returns ''0xTransaction''),
       waitForTransactionReceipt = (\<lambda>txHash. Returns ()) \<rparr>"

definition exampleChannelData :: create_channel_data where
  "exampleChannelData =
     \<lparr> cd_participant0 = ''0xUser'', cd_participant1 = ''0xClearnode'',
       cd_adjudicator = ''0xAdjudicator'', cd_challenge = JsonNumber 3600,
       cd_nonce = JsonString ''42'',
       cd_user_signature = ''0xUserSignature'', cd_server_signature = ''0xServerSignature'' \<rparr>"

definition exampleUpdateData :: channel_update_data where
  "exampleUpdateData =
     \<lparr> ud_version = JsonNumber 1, ud_data = ''0x'',
       ud_allocations = [(JsonNumber 0, JsonString ''15''), (JsonNumber 1, JsonNumber 0)],
       ud_user_signature = ''0xUserSignature'', ud_server_signature = ''0xServerSignature'' \<rparr>"

subsection \<open>Orders of effects, and example states\<close>

text \<open>
  \<open>hookPrecedesWrites es\<close>: among the effects \<open>es\<close> of an open, the on-connect hook is
  invoked and no frame is written before it.  \<open>writesPrecedeHook es\<close>: no frame is written
  from the invocation of the hook on.
\<close>

definition hookPrecedesWrites :: "effect list \<Rightarrow> bool" where
  "hookPrecedesWrites es \<longleftrightarrow>
     list_ex (\<lambda>e. e = HookConnect) es
     \<and> \<not> list_ex isWrite (takeWhile (\<lambda>e. e \<noteq> HookConnect) es)"

definition writesPrecedeHook :: "effect list \<Rightarrow> bool" where
  "writesPrecedeHook es \<longleftrightarrow> \<not> list_ex isWrite (dropWhile (\<lambda>e. e \<noteq> HookConnect) es)"

text \<open>The effects that a step added to the ones of the state before.\<close>

definition newEffects :: "wsm \<Rightarrow> wsm \<Rightarrow> effect list" where
  "newEffects s s' = drop (length (effects s)) (effects s')"


definition exampleConfig :: ws_config where
  "exampleConfig =
     \<lparr> cfg_url = ''wss://clearnode.example/ws'',
       cfg_reconnectAttempts = None,
       cfg_reconnectDelay = None,
       cfg_maxReconnectDelay = None,
       cfg_requestTimeout = None \<rparr>"

definition exampleRequest :: rpc_request where
  "exampleRequest =
     \<lparr> req_id = 1, req_method = ''get_ledger_balances'', req_params = ''{}'',
       req_timestamp = 0, req_sig = [] \<rparr>"

definition exampleResponse :: rpc_response where
  "exampleResponse =
     \<lparr> res_id = 1, res_method = ''get_ledger_balances'', res_data = OtherPayload ''[]'',
       res_error = None \<rparr>"

definition neverThrows :: "rpc_request \<Rightarrow> bool" where
  "neverThrows request = False"

text \<open>A request sent before the first connection, with an on-connect hook registered.\<close>

definition queuedWhileConnecting :: wsm where
  "queuedWhileConnecting =
     fst (run neverThrows [CallOn Hook_connect, CallSend exampleRequest, CallConnect False]
            (constructor exampleConfig))"

text \<open>One reconnection that failed: the transport is about to make its second attempt.\<close>

definition afterOneFailedAttempt :: wsm where
  "afterOneFailedAttempt =
     fst (run neverThrows [CallConnect False, SocketClose 1006, ReconnectTimer False]
            (constructor exampleConfig))"


subsection \<open>Example accounts\<close>

text \<open>An account whose \<open>transfer\<close> returns the hash as a string.\<close>

definition stringAccount :: account where
  "stringAccount =
     \<lparr> acc_transfer = Some (\<lambda>args. Returns (StringResult ''0xabc123'')),
       acc_sendToken = None, acc_transferToken = None, acc_send = None \<rparr>"

text \<open>An account whose \<open>transfer\<close> returns an object with neither \<open>hash\<close> nor \<open>txHash\<close>.\<close>

definition objectAccount :: account where
  "objectAccount =
     \<lparr> acc_transfer = Some (\<lambda>args. Returns (ObjectResult Absent Absent ''[object Object]'')),
       acc_sendToken = None, acc_transferToken = None, acc_send = None \<rparr>"

text \<open>
  An account whose \<open>transfer\<close> throws and whose \<open>sendToken\<close> returns an object with an
  empty \<open>hash\<close> and a \<open>txHash\<close>; it has \<open>transferToken\<close> and \<open>send\<close> too.
\<close>

definition fallbackAccount :: account where
  "fallbackAccount =
     \<lparr> acc_transfer = Some (\<lambda>args. Throws (JsError ''unsupported arguments'')),
       acc_sendToken =
         Some (\<lambda>t r a. Returns (ObjectResult (StringField []) (StringField ''0xfeed'')
                                   ''[object Object]'')),
       acc_transferToken = Some (\<lambda>t r a. Returns (StringResult ''0x01'')),
       acc_send = Some (\<lambda>args. Returns (StringResult ''0x02'')) \<rparr>"

subsection \<open>Basic facts about the transport\<close>

declare flushLoop.simps [simp del]

lemma isConnected_flush_step [simp]:
  "isConnected (emit e (s\<lparr>messageQueue := q\<rparr>)) = isConnected s"
  by (simp add: isConnected_def emit_def)

lemma flushLoop_closed_form:
  "flushLoop wr s =
     (if isConnected s
      then s\<lparr>messageQueue := dropWhile (\<lambda>r. \<not> wr r) (messageQueue s),
              effects := effects s @ map Wrote (takeWhile (\<lambda>r. \<not> wr r) (messageQueue s))\<rparr>
      else s)"
proof (induction wr s rule: flushLoop.induct)
  case (1 wr s)
  show ?case
  proof (cases "messageQueue s")
    case Nil
    then show ?thesis by (subst flushLoop.simps) simp
  next
    case (Cons request rest)
    show ?thesis
    proof (cases "isConnected s \<and> \<not> wr request")
      case True
      with Cons 1 show ?thesis
        by (subst flushLoop.simps) (simp add: emit_def isConnected_def)
    next
      case False
      with Cons show ?thesis
        by (subst flushLoop.simps) auto
    qed
  qed
qed

lemma flushMessageQueue_closed_form:
  "flushMessageQueue wr s =
     (if isConnected s
      then s\<lparr>messageQueue := dropWhile (\<lambda>r. \<not> wr r) (messageQueue s),
              effects := effects s @ map Wrote (takeWhile (\<lambda>r. \<not> wr r) (messageQueue s))\<rparr>
      else s)"
  by (simp add: flushMessageQueue_def flushLoop_closed_form)

lemma onOpen_closed_form:
  "onOpen wr s =
     (let c = (ws s = Some WS_OPEN);
          written = (if c then takeWhile (\<lambda>r. \<not> wr r) (messageQueue s) else []);
          remaining = (if c then dropWhile (\<lambda>r. \<not> wr r) (messageQueue s) else messageQueue s)
      in s\<lparr>connectionState := CONNECTED,
            reconnectAttempts := 0,
            messageQueue := remaining,
            effects := effects s @ map Wrote written
                        @ (if onConnect s then [HookConnect] else []) @ [ConnectResolved]\<rparr>)"
  by (simp add: onOpen_def flushMessageQueue_closed_form isConnected_def emit_def Let_def)


lemma handleMessage_requestIdCounter [simp]:
  "requestIdCounter (handleMessage response s) = requestIdCounter s"
  by (simp add: handleMessage_def handleNotification_def clearTimeout_def emit_def Let_def
      split: option.splits payload.splits)

lemma send_requestIdCounter [simp]:
  "requestIdCounter (snd (send wr request s)) = requestIdCounter s"
  by (simp add: send_def clearTimeout_def emit_def Let_def)

lemma requestTimeoutFires_requestIdCounter [simp]:
  "requestIdCounter (requestTimeoutFires p s) = requestIdCounter s"
  by (simp add: requestTimeoutFires_def clearTimeout_def emit_def split: option.splits)

lemma connect_requestIdCounter [simp]:
  "requestIdCounter (connect ctorThrows s) = requestIdCounter s"
  by (simp add: connect_def emit_def Let_def)

lemma onOpen_requestIdCounter [simp]:
  "requestIdCounter (onOpen wr s) = requestIdCounter s"
  by (simp add: onOpen_closed_form Let_def)

lemma onClose_requestIdCounter [simp]:
  "requestIdCounter (onClose code s) = requestIdCounter s"
  by (simp add: onClose_def scheduleReconnect_def emit_def Let_def)




lemma onOpen_reconnect_fields [simp]:
  "reconnectAttempts (onOpen wr s) = 0"
  "reconnectTimer (onOpen wr s) = reconnectTimer s"
  "reconnectDelay (onOpen wr s) = reconnectDelay s"
  "maxReconnectDelay (onOpen wr s) = maxReconnectDelay s"
  "maxReconnectAttempts (onOpen wr s) = maxReconnectAttempts s"
  by (simp_all add: onOpen_closed_form Let_def)






lemma consistent_onOpen: "consistent s \<Longrightarrow> consistent (onOpen wr s)"
  by (auto simp: consistent_def onOpen_closed_form Let_def)








section \<open>Properties of the transport\<close>


text \<open>
  C9.  A close with a code other than 1000, while the attempt counter is below the budget
  and no reconnection is armed yet, starts attempt \<open>n\<close> (the counter after the increment)
  and arms the reconnection timer with \<open>min (reconnectDelay * 2 ^ (n - 1)) maxReconnectDelay\<close>.
  When a reconnection timer is armed already, the close leaves the timer and the counter as they are.
  Every open sets the counter to 0, so the first close after an open is attempt 1, with
  delay \<open>min reconnectDelay maxReconnectDelay\<close>.
\<close>

theorem reconnect_delay_doubles_and_restarts:
  assumes "code \<noteq> 1000" and "reconnectAttempts s < maxReconnectAttempts s"
  shows "(reconnectTimer s = None \<longrightarrow>
            (let n = reconnectAttempts (onClose code s)
             in n = reconnectAttempts s + 1 \<and> 1 \<le> n
                \<and> reconnectTimer (onClose code s)
                    = Some (min (reconnectDelay s * 2 ^ (n - 1)) (maxReconnectDelay s))
                \<and> connectionState (onClose code s) = RECONNECTING))
       \<and> (reconnectTimer s \<noteq> None \<longrightarrow>
            reconnectTimer (onClose code s) = reconnectTimer s
            \<and> reconnectAttempts (onClose code s) = reconnectAttempts s)
       \<and> reconnectAttempts (onOpen wr s) = 0
       \<and> (reconnectTimer s = None \<longrightarrow>
            reconnectAttempts (onClose code (onOpen wr s)) = 1
            \<and> reconnectTimer (onClose code (onOpen wr s))
                = Some (min (reconnectDelay s) (maxReconnectDelay s)))"
  using assms
  by (simp add: onClose_def scheduleReconnect_def emit_def Let_def)

lemmas transport_eval =
  run.simps step_def Let_def constructor_def orDefault_def emit_def clearTimeout_def
  getNextRequestId_def on_def send_def connect_def disconnect_def onClose_def
  scheduleReconnect_def reconnectTimerFires_def requestTimeoutFires_def handleMessage_def
  handleNotification_def onOpen_closed_form
  exampleConfig_def exampleRequest_def exampleResponse_def neverThrows_def

theorem reconnect_delay_doubles_and_restarts_witness:
  "(1006::nat) \<noteq> 1000
   \<and> reconnectAttempts afterOneFailedAttempt < maxReconnectAttempts afterOneFailedAttempt
   \<and> reconnectTimer afterOneFailedAttempt = None
   \<and> reconnectAttempts afterOneFailedAttempt = 1
   \<and> reconnectAttempts (onClose 1006 afterOneFailedAttempt) = 2
   \<and> reconnectTimer (onClose 1006 afterOneFailedAttempt) = Some 2000
   \<and> reconnectAttempts (onOpen neverThrows afterOneFailedAttempt) = 0
   \<and> reconnectTimer (onClose 1006 (onOpen neverThrows afterOneFailedAttempt)) = Some 1000"
proof -
  have a: "reconnectAttempts afterOneFailedAttempt = 1"
    and m: "maxReconnectAttempts afterOneFailedAttempt = 5"
    and t: "reconnectTimer afterOneFailedAttempt = None"
    and d: "reconnectDelay afterOneFailedAttempt = 1000"
    and x: "maxReconnectDelay afterOneFailedAttempt = 30000"
    by (simp_all add: afterOneFailedAttempt_def transport_eval)
  have c: "(1006::nat) \<noteq> 1000" by simp
  have b: "reconnectAttempts afterOneFailedAttempt < maxReconnectAttempts afterOneFailedAttempt"
    by (simp add: a m)
  show ?thesis
    using reconnect_delay_doubles_and_restarts [OF c b, of neverThrows]
    by (simp add: a m t d x Let_def)
qed

text \<open>
  C1, as the claim states it, fails.  A request is queued before the connection opens and an
  on-connect hook is registered; when the socket opens, the queued request is written first
  and the hook is invoked after it.
\<close>

theorem hook_before_flush_counterexample:
  "messageQueue queuedWhileConnecting = [exampleRequest]
   \<and> onConnect queuedWhileConnecting
   \<and> newEffects queuedWhileConnecting (fst (step neverThrows SocketOpen queuedWhileConnecting))
       = [Wrote exampleRequest, HookConnect, ConnectResolved]
   \<and> \<not> hookPrecedesWrites
         (newEffects queuedWhileConnecting (fst (step neverThrows SocketOpen queuedWhileConnecting)))"
  by (simp add: queuedWhileConnecting_def newEffects_def hookPrecedesWrites_def isWrite_def
      transport_eval)

text \<open>
  C1, amended.  The open handler marks the transport connected, flushes the queue and only
  then invokes the on-connect hook: the effects of an open are the writes of the longest
  prefix of the queue whose writes do not throw (none when the socket is not open), in queue
  order, then the hook if one is registered, then the resolution of \<open>connect\<close>.  No frame
  is written from the hook's invocation on, and the requests not written stay queued.
\<close>

theorem flush_precedes_hook:
  "(let s' = onOpen wr s;
        written = (if ws s = Some WS_OPEN
                   then takeWhile (\<lambda>r. \<not> wr r) (messageQueue s) else [])
    in effects s' = effects s @ map Wrote written
                      @ (if onConnect s then [HookConnect] else []) @ [ConnectResolved]
       \<and> messageQueue s = written @ messageQueue s'
       \<and> writesPrecedeHook (newEffects s s')
       \<and> connectionState s' = CONNECTED)"
proof -
  have skip: "dropWhile (\<lambda>e. e \<noteq> HookConnect) (map Wrote xs @ es)
                = dropWhile (\<lambda>e. e \<noteq> HookConnect) es" for xs es
    by (induction xs) simp_all
  have "\<not> list_ex isWrite (dropWhile (\<lambda>e. e \<noteq> HookConnect) (map Wrote xs @ es))"
    if "\<not> list_ex isWrite es" for xs es
    using that unfolding skip by (auto simp: list_ex_iff dest: set_dropWhileD)
  then show ?thesis
    by (simp add: onOpen_closed_form Let_def newEffects_def writesPrecedeHook_def isWrite_def)
qed

theorem flush_precedes_hook_witness:
  "effects (onOpen neverThrows (queuedWhileConnecting\<lparr>ws := Some WS_OPEN\<rparr>))
     = [Wrote exampleRequest, HookConnect, ConnectResolved]
   \<and> messageQueue (onOpen neverThrows (queuedWhileConnecting\<lparr>ws := Some WS_OPEN\<rparr>)) = []"
  using flush_precedes_hook [of neverThrows "queuedWhileConnecting\<lparr>ws := Some WS_OPEN\<rparr>"]
  by (simp add: queuedWhileConnecting_def transport_eval)






section \<open>Properties of the send path\<close>

subsection \<open>Decimal numerals\<close>

declare showNat.simps [simp del]

lemma natOfDigits_Nil [simp]: "natOfDigits [] = 0"
  by (simp add: natOfDigits_def)

lemma natOfDigits_snoc [simp]: "natOfDigits (ds @ [c]) = 10 * natOfDigits ds + digitValue c"
  by (simp add: natOfDigits_def)

lemma natOfDigits_append:
  "natOfDigits (xs @ ys) = natOfDigits xs * 10 ^ length ys + natOfDigits ys"
  by (induction ys rule: rev_induct) (simp_all add: append_assoc [symmetric] del: append_assoc)

lemma digitValue_zero [simp]: "digitValue CHR ''0'' = 0"
  by (simp add: digitValue_def)

lemma natOfDigits_Cons_zero [simp]: "natOfDigits (CHR ''0'' # ds) = natOfDigits ds"
  using natOfDigits_append [of "[CHR ''0'']" ds] by (simp add: natOfDigits_def)

lemma natOfDigits_zeros [simp]: "natOfDigits (replicate n CHR ''0'') = 0"
  by (induction n) simp_all

lemma natOfDigits_stripLeadingZeros [simp]:
  "natOfDigits (stripLeadingZeros ds) = natOfDigits ds"
  by (induction ds) (simp_all add: stripLeadingZeros_def)

lemma digitValue_less: "isDigit c \<Longrightarrow> digitValue c < 10"
  by (auto simp: isDigit_def digitValue_def)

lemma natOfDigits_less: "list_all isDigit ds \<Longrightarrow> natOfDigits ds < 10 ^ length ds"
proof (induction ds rule: rev_induct)
  case Nil
  show ?case by simp
next
  case (snoc c ds)
  then have "natOfDigits ds < 10 ^ length ds" and "digitValue c < 10"
    by (simp_all add: digitValue_less)
  then have "10 * natOfDigits ds + digitValue c < 10 * 10 ^ length ds"
    by linarith
  then show ?case by simp
qed

lemma natOfDigits_take:
  assumes "list_all isDigit ds" and "k \<le> length ds"
  shows "natOfDigits (take k ds) = natOfDigits ds div 10 ^ (length ds - k)"
proof -
  have "list_all isDigit (drop k ds)"
    using assms(1) by (auto simp: list_all_iff dest: in_set_dropD)
  then have small: "natOfDigits (drop k ds) < 10 ^ (length ds - k)"
    using natOfDigits_less [of "drop k ds"] by simp
  have "natOfDigits ds = natOfDigits (take k ds) * 10 ^ (length ds - k) + natOfDigits (drop k ds)"
    using natOfDigits_append [of "take k ds" "drop k ds"] by simp
  with small show ?thesis by simp
qed

text \<open>Padding or cutting the fraction to \<open>d\<close> digits multiplies by \<open>10 ^ d\<close> and rounds down.\<close>

lemma natOfDigits_padded:
  assumes "list_all isDigit f"
  shows "natOfDigits (take d (f @ replicate d CHR ''0'')) = natOfDigits f * 10 ^ d div 10 ^ length f"
proof (cases "length f \<le> d")
  case True
  then have "take d (f @ replicate d CHR ''0'') = f @ replicate (d - length f) CHR ''0''"
    by simp
  moreover have "natOfDigits f * 10 ^ d div 10 ^ length f = natOfDigits f * 10 ^ (d - length f)"
  proof -
    have "(10::nat) ^ d = 10 ^ (d - length f) * 10 ^ length f"
      using True by (simp add: power_add [symmetric])
    then have "natOfDigits f * 10 ^ d = natOfDigits f * 10 ^ (d - length f) * 10 ^ length f"
      by simp
    then show ?thesis
      by (simp only: div_mult_self_is_m zero_less_power zero_less_numeral)
  qed
  ultimately show ?thesis
    by (simp add: natOfDigits_append)
next
  case False
  then have l: "d \<le> length f" by simp
  have "(10::nat) ^ length f = 10 ^ d * 10 ^ (length f - d)"
    using l by (simp add: power_add [symmetric])
  then have "natOfDigits f * 10 ^ d div 10 ^ length f = natOfDigits f div 10 ^ (length f - d)"
    by (simp add: mult.commute)
  with False show ?thesis
    by (simp add: natOfDigits_take [OF assms l])
qed

lemma natOfDigits_single [simp]: "natOfDigits [c] = digitValue c"
  by (simp add: natOfDigits_def)

lemma digitValue_pos:
  assumes "isDigit x" and "x \<noteq> CHR ''0''"
  shows "1 \<le> digitValue x"
proof -
  have "of_char x \<noteq> (48::nat)"
  proof
    assume "of_char x = (48::nat)"
    then have "of_char x = (of_char CHR ''0'' :: nat)" by simp
    then have "x = CHR ''0''" by (simp only: of_char_eq_iff)
    with assms(2) show False by simp
  qed
  with assms(1) show ?thesis
    unfolding isDigit_def digitValue_def by linarith
qed

lemma digitChar_digitValue: "isDigit c \<Longrightarrow> digitChar (digitValue c) = c"
  by (simp add: isDigit_def digitChar_def digitValue_def)

lemma showNat_natOfDigits:
  assumes "list_all isDigit ds" and "ds \<noteq> []" and "ds = ''0'' \<or> hd ds \<noteq> CHR ''0''"
  shows "showNat (natOfDigits ds) = ds"
  using assms
proof (induction ds rule: rev_induct)
  case Nil
  then show ?case by simp
next
  case (snoc c ds)
  then have c: "isDigit c" and small: "digitValue c < 10"
    by (simp_all add: digitValue_less)
  show ?case
  proof (cases "ds = []")
    case True
    with small c show ?thesis
      by (subst showNat.simps) (simp add: digitChar_digitValue)
  next
    case False
    with snoc.prems have lead: "hd ds \<noteq> CHR ''0''" and digits: "list_all isDigit ds"
      by auto
    from False obtain x xs where ds: "ds = x # xs"
      by (cases ds) auto
    with lead digits have "isDigit x" and "x \<noteq> CHR ''0''"
      by simp_all
    then have "1 \<le> digitValue x"
      by (rule digitValue_pos)
    moreover have "natOfDigits ds = digitValue x * 10 ^ length xs + natOfDigits xs"
      using natOfDigits_append [of "[x]" xs] ds by simp
    moreover have "digitValue x \<le> digitValue x * 10 ^ length xs"
      by simp
    ultimately have "1 \<le> natOfDigits ds"
      by linarith
    then have big: "\<not> 10 * natOfDigits ds + digitValue c < 10"
      by simp
    have "showNat (natOfDigits ds) = ds"
      using snoc.IH digits False lead by simp
    with big small c show ?thesis
      by (subst showNat.simps) (simp add: digitChar_digitValue)
  qed
qed

lemma canonical_stripped:
  assumes "list_all isDigit ds"
  shows "list_all isDigit (orElse (stripLeadingZeros ds) ''0'')"
    and "orElse (stripLeadingZeros ds) ''0'' \<noteq> []"
    and "orElse (stripLeadingZeros ds) ''0'' = ''0''
         \<or> hd (orElse (stripLeadingZeros ds) ''0'') \<noteq> CHR ''0''"
proof -
  have "list_all isDigit (dropWhile (\<lambda>c. c = CHR ''0'') ds)"
    using assms by (auto simp: list_all_iff dest: set_dropWhileD)
  then show "list_all isDigit (orElse (stripLeadingZeros ds) ''0'')"
    by (simp add: orElse_def stripLeadingZeros_def isDigit_def)
  show "orElse (stripLeadingZeros ds) ''0'' \<noteq> []"
    by (simp add: orElse_def)
  show "orElse (stripLeadingZeros ds) ''0'' = ''0''
         \<or> hd (orElse (stripLeadingZeros ds) ''0'') \<noteq> CHR ''0''"
    using hd_dropWhile [of "\<lambda>c. c = CHR ''0''" ds]
    by (simp add: orElse_def stripLeadingZeros_def)
qed

lemma natOfDigits_orElse_zero [simp]:
  "natOfDigits (orElse (stripLeadingZeros ds) ''0'') = natOfDigits ds"
proof (cases "stripLeadingZeros ds = []")
  case True
  have "natOfDigits ds = 0"
    using natOfDigits_stripLeadingZeros [of ds] unfolding True by simp
  with True show ?thesis by (simp add: orElse_def)
next
  case False
  then show ?thesis by (simp add: orElse_def)
qed

subsection \<open>Splitting a well-formed amount\<close>

lemma point_not_digit [simp]: "\<not> isDigit CHR ''.''"
  by (simp add: isDigit_def)

lemma digit_not_whitespace: "isDigit c \<Longrightarrow> \<not> isWhitespace c"
  by (auto simp: isDigit_def isWhitespace_def)

lemma point_not_whitespace [simp]: "\<not> isWhitespace CHR ''.''"
  by (simp add: isWhitespace_def)

lemma splitOn_digits: "list_all isDigit w \<Longrightarrow> splitOn CHR ''.'' w = [w]"
  by (induction w) auto

lemma splitOn_point:
  "list_all isDigit w \<Longrightarrow> splitOn CHR ''.'' (w @ CHR ''.'' # f) = w # splitOn CHR ''.'' f"
  by (induction w) auto

lemma trim_no_whitespace:
  assumes "\<forall>c \<in> set s. \<not> isWhitespace c"
  shows "trim s = s"
proof -
  have keep: "dropWhile isWhitespace xs = xs" if "\<forall>c \<in> set xs. \<not> isWhitespace c" for xs
    using that by (cases xs) simp_all
  have "dropWhile isWhitespace s = s"
    using assms by (rule keep)
  moreover have "dropWhile isWhitespace (rev s) = rev s"
    using assms by (intro keep) simp
  ultimately show ?thesis
    by (simp add: trim_def)
qed

text \<open>A well-formed amount is its whole part, or its whole part, a point and its fraction.\<close>

lemma wellFormedAmount_cases:
  assumes "wellFormedAmount s"
  shows "list_all isDigit (wholePart s) \<and> list_all isDigit (fractionPart s)
         \<and> ((s = wholePart s \<and> fractionPart s = [])
             \<or> s = wholePart s @ CHR ''.'' # fractionPart s)"
proof -
  have w: "list_all isDigit (wholePart s)"
    by (auto simp: wholePart_def list_all_iff dest: set_takeWhileD)
  have s: "s = wholePart s @ dropWhile isDigit s"
    by (simp add: wholePart_def)
  show ?thesis
  proof (cases "dropWhile isDigit s")
    case Nil
    have "fractionPart s = []"
      by (simp add: fractionPart_def Nil)
    moreover have "s = wholePart s"
      using s unfolding Nil by simp
    ultimately show ?thesis
      using w by simp
  next
    case (Cons c f)
    with assms have "c = CHR ''.''" and "list_all isDigit f"
      by (simp_all add: wellFormedAmount_def)
    with Cons s w show ?thesis by (simp add: fractionPart_def)
  qed
qed

lemma toSmallest_well_formed:
  assumes "wellFormedAmount s"
  shows "toSmallest s d =
           orElse (stripLeadingZeros (orElse (stripLeadingZeros (wholePart s)) ''0''
                     @ take d (fractionPart s @ replicate d CHR ''0''))) ''0''"
proof -
  from wellFormedAmount_cases [OF assms]
  have w: "list_all isDigit (wholePart s)" and f: "list_all isDigit (fractionPart s)"
    and shape: "(s = wholePart s \<and> fractionPart s = [])
                \<or> s = wholePart s @ CHR ''.'' # fractionPart s"
    by simp_all
  have nows: "\<forall>c \<in> set (wholePart s). \<not> isWhitespace c" "\<forall>c \<in> set (fractionPart s). \<not> isWhitespace c"
    using w f by (auto simp: list_all_iff digit_not_whitespace)
  from shape show ?thesis
  proof
    assume a: "s = wholePart s \<and> fractionPart s = []"
    then have "trim s = wholePart s"
      using trim_no_whitespace [of "wholePart s"] nows by simp
    then have "splitOn CHR ''.'' (trim s) = [wholePart s]"
      using splitOn_digits [OF w] by simp
    with a show ?thesis
      by (simp add: toSmallest_def element_def Let_def)
  next
    assume a: "s = wholePart s @ CHR ''.'' # fractionPart s"
    have "trim (wholePart s @ CHR ''.'' # fractionPart s) = wholePart s @ CHR ''.'' # fractionPart s"
      using nows by (intro trim_no_whitespace) auto
    with a have "trim s = wholePart s @ CHR ''.'' # fractionPart s"
      by simp
    then have "splitOn CHR ''.'' (trim s) = [wholePart s, fractionPart s]"
      using splitOn_point [OF w, of "fractionPart s"] splitOn_digits [OF f] by simp
    then show ?thesis
      by (simp add: toSmallest_def element_def Let_def)
  qed
qed

lemma floor_amount:
  assumes "F < 10 ^ L"
  shows "\<lfloor>((of_nat W :: rat) + of_nat F / 10 ^ L) * 10 ^ d\<rfloor> = int (W * 10 ^ d + F * 10 ^ d div 10 ^ L)"
proof -
  have "((of_nat W :: rat) + of_nat F / 10 ^ L) * 10 ^ d
          = of_nat (W * 10 ^ d * 10 ^ L + F * 10 ^ d) / of_nat (10 ^ L)"
    by (simp add: field_simps)
  then have "\<lfloor>((of_nat W :: rat) + of_nat F / 10 ^ L) * 10 ^ d\<rfloor>
          = int ((W * 10 ^ d * 10 ^ L + F * 10 ^ d) div 10 ^ L)"
    by (simp only: floor_divide_of_nat_eq)
  also have "(W * 10 ^ d * 10 ^ L + F * 10 ^ d) div 10 ^ L = W * 10 ^ d + F * 10 ^ d div 10 ^ L"
    by simp
  finally show ?thesis .
qed

text \<open>
  C4.  For a well-formed amount \<open>s\<close> and any number of decimals \<open>d\<close>, \<open>toSmallest s d\<close>
  is the decimal numeral, without leading zeros, of \<open>\<lfloor>amountValue s * 10 ^ d\<rfloor>\<close>.  It is
  computed on strings: the fraction is padded with zeros or cut (not rounded) to exactly
  \<open>d\<close> digits and appended to the whole part, and leading zeros are removed.
\<close>

theorem toSmallest_is_floor:
  assumes "wellFormedAmount s"
  shows "toSmallest s d = showNat (nat \<lfloor>amountValue s * 10 ^ d\<rfloor>)
       \<and> int (natOfDigits (toSmallest s d)) = \<lfloor>amountValue s * 10 ^ d\<rfloor>
       \<and> isNumeric (toSmallest s d)
       \<and> toSmallest s d =
           orElse (stripLeadingZeros (orElse (stripLeadingZeros (wholePart s)) ''0''
                     @ take d (fractionPart s @ replicate d CHR ''0''))) ''0''
       \<and> length (take d (fractionPart s @ replicate d CHR ''0'')) = d"
proof -
  let ?w = "wholePart s" and ?f = "fractionPart s"
  let ?cw = "orElse (stripLeadingZeros ?w) ''0''"
  let ?fp = "take d (?f @ replicate d CHR ''0'')"
  from wellFormedAmount_cases [OF assms]
  have w: "list_all isDigit ?w" and f: "list_all isDigit ?f"
    by simp_all
  have shape: "toSmallest s d = orElse (stripLeadingZeros (?cw @ ?fp)) ''0''"
    by (rule toSmallest_well_formed [OF assms])
  have len: "length ?fp = d"
    by simp
  have "isDigit CHR ''0''"
    by (simp add: isDigit_def)
  then have "list_all isDigit (?f @ replicate d CHR ''0'')"
    using f by (auto simp: list_all_iff)
  then have fp: "list_all isDigit ?fp"
    by (auto simp: list_all_iff dest: in_set_takeD)
  have digits: "list_all isDigit (?cw @ ?fp)"
    using canonical_stripped(1) [OF w] fp by simp
  have val: "natOfDigits (toSmallest s d)
               = natOfDigits ?w * 10 ^ d + natOfDigits ?f * 10 ^ d div 10 ^ length ?f"
    unfolding shape natOfDigits_orElse_zero
    by (simp only: natOfDigits_append len natOfDigits_orElse_zero natOfDigits_padded [OF f])
  have fl: "\<lfloor>amountValue s * 10 ^ d\<rfloor> = int (natOfDigits (toSmallest s d))"
    unfolding val amountValue_def
    by (rule floor_amount [OF natOfDigits_less [OF f]])
  have num: "isNumeric (toSmallest s d)"
    unfolding shape isNumeric_def
    using canonical_stripped(1,2) [OF digits] by simp
  have "showNat (natOfDigits (toSmallest s d)) = toSmallest s d"
    unfolding shape
    by (rule showNat_natOfDigits [OF canonical_stripped [OF digits]])
  then have "toSmallest s d = showNat (nat \<lfloor>amountValue s * 10 ^ d\<rfloor>)"
    by (simp add: fl)
  with fl num shape len show ?thesis
    by simp
qed

lemmas amount_eval =
  wellFormedAmount_def wholePart_def fractionPart_def isDigit_def toSmallest_def trim_def
  isWhitespace_def element_def orElse_def stripLeadingZeros_def Let_def

theorem toSmallest_is_floor_witness:
  "wellFormedAmount ''0.123456789''
   \<and> toSmallest ''0.123456789'' 6 = ''123456''
   \<and> toSmallest ''0.123456789'' 6 = showNat (nat \<lfloor>amountValue ''0.123456789'' * 10 ^ 6\<rfloor>)
   \<and> wellFormedAmount ''1.5''
   \<and> toSmallest ''1.5'' 6 = ''1500000''
   \<and> toSmallest ''1.5'' 6 = showNat (nat \<lfloor>amountValue ''1.5'' * 10 ^ 6\<rfloor>)"
proof -
  have a: "wellFormedAmount ''0.123456789''" and b: "wellFormedAmount ''1.5''"
    by (simp_all add: amount_eval)
  have "toSmallest ''0.123456789'' 6 = ''123456''" and "toSmallest ''1.5'' 6 = ''1500000''"
    by (simp_all add: amount_eval eval_nat_numeral)
  then show ?thesis
    using toSmallest_is_floor [OF a, of 6] toSmallest_is_floor [OF b, of 6] a b
    by simp
qed

subsection \<open>\<open>BigInt\<close> of a numeric string\<close>

lemma digitInBase_digit: "isDigit c \<Longrightarrow> digitInBase 10 c = Some (digitValue c)"
  unfolding isDigit_def digitInBase_def digitValue_def Let_def by auto

lemma natInBase_fold:
  "list_all isDigit ds \<Longrightarrow>
     foldl (\<lambda>acc c. case acc of
                      None \<Rightarrow> None
                    | Some n \<Rightarrow> (case digitInBase 10 c of
                                  None \<Rightarrow> None
                                | Some v \<Rightarrow> Some (10 * n + v)))
       (Some n) ds
     = Some (foldl (\<lambda>n c. 10 * n + digitValue c) n ds)"
  by (induction ds arbitrary: n) (simp_all add: digitInBase_digit)

lemma natInBase_numeric: "isNumeric s \<Longrightarrow> natInBase 10 s = Some (natOfDigits s)"
  by (simp add: isNumeric_def natInBase_def natOfDigits_def natInBase_fold)

lemma js_BigInt_numeric:
  assumes "isNumeric s"
  shows "js_BigInt s = Some (int (natOfDigits s))"
proof -
  from assms obtain c cs where s: "s = c # cs" and c: "isDigit c" and cs: "list_all isDigit cs"
    by (cases s) (auto simp: isNumeric_def)
  have "\<forall>x \<in> set s. \<not> isWhitespace x"
    using assms by (auto simp: isNumeric_def list_all_iff digit_not_whitespace)
  then have t: "trim s = s"
    by (rule trim_no_whitespace)
  have sign: "c \<noteq> CHR ''+''" "c \<noteq> CHR ''-''"
    using c by (auto simp: isDigit_def)
  have "\<not> isDigit CHR ''x''" "\<not> isDigit CHR ''X''" "\<not> isDigit CHR ''o''" "\<not> isDigit CHR ''O''"
    "\<not> isDigit CHR ''b''" "\<not> isDigit CHR ''B''"
    by (simp_all add: isDigit_def)
  then have prefix: "take 2 s \<noteq> ''0x''" "take 2 s \<noteq> ''0X''" "take 2 s \<noteq> ''0o''"
    "take 2 s \<noteq> ''0O''" "take 2 s \<noteq> ''0b''" "take 2 s \<noteq> ''0B''"
    using cs unfolding s by (cases cs; auto)+
  show ?thesis
    using prefix sign natInBase_numeric [OF assms]
    by (simp add: js_BigInt_def t Let_def) (simp add: s)
qed

lemma checkBalance_numeric:
  assumes "isNumeric availableSmallest" and "isNumeric requestedSmallest"
  shows "checkBalance availableSmallest balanceSource requestedSmallest =
           (if natOfDigits availableSmallest < natOfDigits requestedSmallest
            then Some (Http (insufficientBalance availableSmallest balanceSource requestedSmallest))
            else None)"
  using assms by (simp add: checkBalance_def js_BigInt_numeric)


lemmas wallet_eval =
  checkBalanceAndSend_def balancePreCheck_def checkBalance_def insufficientBalance_def
  sendTransaction_def tokenTransfer_def nativeTransfer_def tryTransfer_def trySendToken_def
  tryTransferToken_def finishTokenTransfer_def hashOf_def hashOfNative_def falsyHash_def
  truthy_def fieldValue_def classifySendError_def messageOf_def exceptionMessage_def
  notSupported_def noHashReturned_def
  isNumeric_def isDigit_def natOfDigits_def digitValue_def


text \<open>
  The scenario of the specification: 1000 of a token with 6 decimals is requested, the signer
  reports a balance of 50000000.
\<close>

lemma insufficient_balance_scenario:
  "sendCryptoResolved stringAccount ''ethereum'' ''0xRecipient'' ''1000'' (Some ''0xToken'') 6
       ''50000000'' ''wdk-getTokenBalance''
     = ([], Inl (UnprocessableEntityException
          ''Insufficient balance. Available: 50000000 (wdk-getTokenBalance), Requested: 1000000000''))"
proof -
  have r: "toSmallest ''1000'' 6 = ''1000000000''"
    by (simp add: amount_eval eval_nat_numeral)
  have n: "isNumeric ''50000000''" "isNumeric ''1000000000''"
    by (simp_all add: isNumeric_def isDigit_def)
  have v: "natOfDigits ''50000000'' = 50000000" "natOfDigits ''1000000000'' = 1000000000"
    by (simp_all add: natOfDigits_def digitValue_def)
  have t: "trim ''0xRecipient'' \<noteq> []"
    by (simp add: trim_def isWhitespace_def)
  show ?thesis
    using t
    by (simp add: sendCryptoResolved_def isToken_def r checkBalanceAndSend_def
        balancePreCheck_def checkBalance_numeric [OF n] v insufficientBalance_def Let_def)
qed

subsection \<open>The order of the token transfer\<close>

lemma tokenTransfer_firstSuccess:
  assumes "js_BigInt requestedSmallest = Some amount"
  shows "fst (tokenTransfer account token recipient requestedSmallest)
           = fst (firstSuccess account (entryPoints account token recipient amount))
       \<and> snd (tokenTransfer account token recipient requestedSmallest)
           = (case snd (firstSuccess account (entryPoints account token recipient amount)) of
                Some result \<Rightarrow>
                  if falsyHash (hashOf result) then Inl notSupported else Inr (hashOf result)
              | None \<Rightarrow>
                  (case acc_send account of
                     None \<Rightarrow> Inl notSupported
                   | Some f \<Rightarrow>
                       (case f (SendWithToken recipient amount token) of
                          Throws e \<Rightarrow> Inl e
                        | Returns result \<Rightarrow> Inl notSupported)))"
  unfolding tokenTransfer_def assms
  by (cases "acc_transfer account"; cases "acc_sendToken account";
      cases "acc_transferToken account"; cases "acc_send account")
     (simp_all add: tryTransfer_def trySendToken_def tryTransferToken_def
        finishTokenTransfer_def entryPoints_def perform_def falsyHash_def
        split: outcome.splits)

text \<open>
  C6, as the claim states it, fails in its last part.  The account's \<open>transfer\<close> returns an
  object that has neither a \<open>hash\<close> nor a \<open>txHash\<close> field; the send succeeds, and the hash
  it returns is \<open>String(result)\<close>, which is neither the result nor one of the two fields.
\<close>

theorem token_hash_counterexample:
  "sendTransaction objectAccount ''base'' ''0xRecipient'' (Some ''0xToken'') ''1500000''
     = ([Transfer (TokenToRecipient ''0xToken'' ''0xRecipient'' 1500000)],
        Inr ''[object Object]'')
   \<and> perform objectAccount (Transfer (TokenToRecipient ''0xToken'' ''0xRecipient'' 1500000))
       = Returns (ObjectResult Absent Absent ''[object Object]'')
   \<and> \<not> hashAsClaimed (ObjectResult Absent Absent ''[object Object]'') ''[object Object]''"
proof -
  have n: "isNumeric ''1500000''"
    by (simp add: isNumeric_def isDigit_def)
  have b: "js_BigInt ''1500000'' = Some 1500000"
    by (simp add: js_BigInt_numeric [OF n]) (simp add: natOfDigits_def digitValue_def)
  show ?thesis
    by (simp add: sendTransaction_def tokenTransfer_def b tryTransfer_def trySendToken_def
        tryTransferToken_def finishTokenTransfer_def hashOf_def falsyHash_def truthy_def
        objectAccount_def perform_def hashAsClaimed_def)
qed

text \<open>
  C6, amended.  For a token send whose amount \<open>BigInt\<close> accepts, the calls made to the signer
  are the entry points that the account has, in the order \<open>transfer\<close> with \<open>recipient\<close>,
  \<open>transfer\<close> with \<open>to\<close>, \<open>sendToken\<close>, \<open>transferToken\<close>, \<open>send\<close>, up to and including
  the first call that returns; that call's result decides the outcome and no later entry
  point is called.  The hash is the result when it is a string; for an object it is the
  \<open>hash\<close> field when truthy, else the \<open>txHash\<close> field when truthy, else \<open>String(result)\<close>;
  for \<open>null\<close> or \<open>undefined\<close> it is \<open>String(result)\<close>.  A hash that is a non-empty string
  is what \<open>sendCrypto\<close> returns.
\<close>

theorem token_transfer_first_success:
  assumes "js_BigInt requestedSmallest = Some amount"
  shows "(let attempt = firstSuccess account (entryPoints account token recipient amount)
          in fst (tokenTransfer account token recipient requestedSmallest) = fst attempt
             \<and> (\<forall>result. snd attempt = Some result \<longrightarrow>
                   snd (tokenTransfer account token recipient requestedSmallest)
                     = (if falsyHash (hashOf result) then Inl notSupported
                        else Inr (hashOf result)))
             \<and> (\<forall>result h. token \<noteq> [] \<and> snd attempt = Some result
                     \<and> hashOf result = HashString h \<and> h \<noteq> [] \<longrightarrow>
                   sendTransaction account chain recipient (Some token) requestedSmallest
                     = (fst attempt, Inr h)))
       \<and> hashOf (StringResult s) = HashString s
       \<and> hashOf (ObjectResult hf tf str)
           = (if truthy hf then fieldValue hf else if truthy tf then fieldValue tf
              else HashString str)
       \<and> hashOf (NullishResult str) = HashString str"
proof -
  note fs = tokenTransfer_firstSuccess [OF assms, of account token recipient]
  have "sendTransaction account chain recipient (Some token) requestedSmallest
          = (fst (firstSuccess account (entryPoints account token recipient amount)), Inr h)"
    if "token \<noteq> []"
      and "snd (firstSuccess account (entryPoints account token recipient amount)) = Some result"
      and "hashOf result = HashString h" and "h \<noteq> []" for result h
    using that fs by (simp add: sendTransaction_def falsyHash_def)
  then show ?thesis
    using fs by (simp add: Let_def hashOf_def)
qed

theorem token_transfer_first_success_witness:
  "js_BigInt ''1500000'' = Some 1500000
   \<and> firstSuccess fallbackAccount (entryPoints fallbackAccount ''0xToken'' ''0xRecipient'' 1500000)
       = ([Transfer (TokenToRecipient ''0xToken'' ''0xRecipient'' 1500000),
           Transfer (TokenTo ''0xToken'' ''0xRecipient'' 1500000),
           SendToken ''0xToken'' ''0xRecipient'' 1500000],
          Some (ObjectResult (StringField []) (StringField ''0xfeed'') ''[object Object]''))
   \<and> sendTransaction fallbackAccount ''base'' ''0xRecipient'' (Some ''0xToken'') ''1500000''
       = ([Transfer (TokenToRecipient ''0xToken'' ''0xRecipient'' 1500000),
           Transfer (TokenTo ''0xToken'' ''0xRecipient'' 1500000),
           SendToken ''0xToken'' ''0xRecipient'' 1500000],
          Inr ''0xfeed'')"
proof -
  have n: "isNumeric ''1500000''"
    by (simp add: isNumeric_def isDigit_def)
  have b: "js_BigInt ''1500000'' = Some 1500000"
    by (simp add: js_BigInt_numeric [OF n]) (simp add: natOfDigits_def digitValue_def)
  have f: "firstSuccess fallbackAccount
             (entryPoints fallbackAccount ''0xToken'' ''0xRecipient'' 1500000)
       = ([Transfer (TokenToRecipient ''0xToken'' ''0xRecipient'' 1500000),
           Transfer (TokenTo ''0xToken'' ''0xRecipient'' 1500000),
           SendToken ''0xToken'' ''0xRecipient'' 1500000],
          Some (ObjectResult (StringField []) (StringField ''0xfeed'') ''[object Object]''))"
    by (simp add: entryPoints_def perform_def fallbackAccount_def)
  have h: "hashOf (ObjectResult (StringField []) (StringField ''0xfeed'') ''[object Object]'')
             = HashString ''0xfeed''"
    by (simp add: hashOf_def truthy_def fieldValue_def)
  show ?thesis
    using token_transfer_first_success [OF b, of fallbackAccount "''0xToken''" "''0xRecipient''"
        "''base''"] b f h
    by (simp add: Let_def)
qed


section \<open>Properties of the channel service\<close>



lemmas channel_eval =
  createChannel_def resizeChannel_def closeChannel_def submit_def custodyAddress_def
  computeChannelId_def initialState_def toBigInt_def exampleService_def exampleChannelData_def
  exampleUpdateData_def showInt_def Let_def channel.extend_def channel_with_state.fields_def




end
